theory Spec2Isabelle
  imports Complex_Main "HOL-Library.Product_Lexorder" "HOL-Library.Multiset"
begin

section \<open>Python values that the ETL scripts handle\<close>

text \<open>
  The four scripts (\<^verbatim>\<open>main.py\<close>, \<^verbatim>\<open>main_duckdb.py\<close>, \<^verbatim>\<open>main_parallel.py\<close>,
  \<^verbatim>\<open>main_parallel_duckdb.py\<close>) read JSON from a market-data API and write rows to a
  relational store. Exceptions are values: a computation that may raise returns
  \<open>exn + 'a\<close>, with \<open>Inl\<close> the exception. The string carried by an exception is what
  \<^verbatim>\<open>str(e)\<close> returns; its wording is abbreviated here.
\<close>

datatype exn =
    KeyError string
  | ValueError string
  | TypeError string
  | AttributeError string
  | OverflowError string
  | RequestException string
  | DatabaseError string

fun str_exn :: "exn \<Rightarrow> string" where
  "str_exn (KeyError m) = m"
| "str_exn (ValueError m) = m"
| "str_exn (TypeError m) = m"
| "str_exn (AttributeError m) = m"
| "str_exn (OverflowError m) = m"
| "str_exn (RequestException m) = m"
| "str_exn (DatabaseError m) = m"

text \<open>\<^verbatim>\<open>except (KeyError, ValueError)\<close>: the two classes the record loops catch.\<close>

fun key_or_value_error :: "exn \<Rightarrow> bool" where
  "key_or_value_error (KeyError m) = True"
| "key_or_value_error (ValueError m) = True"
| "key_or_value_error e = False"

text \<open>\<^verbatim>\<open>except requests.RequestException\<close>: the class the fetch function catches.\<close>

fun request_exception :: "exn \<Rightarrow> bool" where
  "request_exception (RequestException m) = True"
| "request_exception e = False"

text \<open>
  A Python float. A finite float is represented by the exact rational that its decimal
  text denotes: rounding to binary64 is not modelled.
\<close>

datatype pyfloat = Finite rat | PosInf | NegInf | NaN

text \<open>
  What \<^verbatim>\<open>response.json()\<close> returns. An object is the list of its items in
  iteration order (a Python dict keeps insertion order); its keys are distinct.
\<close>

datatype json =
    JNull
  | JBool bool
  | JInt int
  | JFloat pyfloat
  | JStr string
  | JArr "json list"
  | JObj "(string \<times> json) list"

text \<open>Truth value of a Python object, as \<^verbatim>\<open>if not x\<close> tests it.\<close>

fun truthy :: "json \<Rightarrow> bool" where
  "truthy JNull = False"
| "truthy (JBool b) = b"
| "truthy (JInt i) = (i \<noteq> 0)"
| "truthy (JFloat f) = (f \<noteq> Finite 0)"
| "truthy (JStr s) = (s \<noteq> [])"
| "truthy (JArr xs) = (xs \<noteq> [])"
| "truthy (JObj kvs) = (kvs \<noteq> [])"

subsection \<open>Characters\<close>

definition is_digit :: "char \<Rightarrow> bool" where
  "is_digit c = (c \<in> set ''0123456789'')"

definition digit_val :: "char \<Rightarrow> int" where
  "digit_val c = of_char c - 48"

text \<open>
  ASCII whitespace as Python sees it (\<^verbatim>\<open>str.isspace\<close>, \<^verbatim>\<open>\s\<close> in a \<^verbatim>\<open>str\<close>
  pattern): tab, line feed, vertical tab, form feed, carriage return, the four
  separators 0x1C to 0x1F, and space. Characters outside ASCII are not modelled.
\<close>

definition is_space :: "char \<Rightarrow> bool" where
  "is_space c = (c \<in> set [CHR 0x09, CHR 0x0A, CHR 0x0B, CHR 0x0C, CHR 0x0D,
                           CHR 0x1C, CHR 0x1D, CHR 0x1E, CHR 0x1F, CHR 0x20])"

definition strip :: "string \<Rightarrow> string" where
  "strip s = rev (dropWhile is_space (rev (dropWhile is_space s)))"

definition lower :: "char \<Rightarrow> char" where
  "lower c = (if c \<in> set ''ABCDEFGHIJKLMNOPQRSTUVWXYZ''
              then char_of (of_char c + (32::int)) else c)"

text \<open>Value of a list of decimal digits, most significant first.\<close>

definition digits_value :: "int list \<Rightarrow> int" where
  "digits_value ds = foldl (\<lambda>acc d. 10 * acc + d) 0 ds"

subsection \<open>\<^verbatim>\<open>int(s)\<close> and \<^verbatim>\<open>float(s)\<close> on text\<close>

text \<open>
  A digit part is one or more digits, with single underscores allowed between digits
  (\<^verbatim>\<open>digit (["_"] digit)*\<close>). The whole string must be one.
\<close>

fun digitpart :: "string \<Rightarrow> int list option" where
  "digitpart [] = None"
| "digitpart [c] = (if is_digit c then Some [digit_val c] else None)"
| "digitpart (c # d # cs) =
     (if is_digit c
      then (if d = CHR ''_'' then map_option ((#) (digit_val c)) (digitpart cs)
            else map_option ((#) (digit_val c)) (digitpart (d # cs)))
      else None)"

text \<open>An optional sign: whether it is a minus, and the rest.\<close>

fun split_sign :: "string \<Rightarrow> bool \<times> string" where
  "split_sign [] = (False, [])"
| "split_sign (c # cs) =
     (if c = CHR ''-'' then (True, cs) else if c = CHR ''+'' then (False, cs) else (False, c # cs))"

text \<open>
  \<^verbatim>\<open>int(s)\<close> for a string, base ten: surrounding whitespace is stripped, then an
  optional sign and a digit part. Anything else raises ValueError. (The limit on the
  number of digits that recent interpreters apply is not modelled.)
\<close>

definition int_of_str :: "string \<Rightarrow> exn + int" where
  "int_of_str s =
     (case split_sign (strip s) of
        (neg, body) \<Rightarrow>
          (case digitpart body of
             None \<Rightarrow> Inl (ValueError (''invalid literal for int() with base 10: '' @ s))
           | Some ds \<Rightarrow> Inr (if neg then - digits_value ds else digits_value ds)))"

text \<open>
  Underscores in a float literal: each one must stand between two digits.
  \<open>prev\<close> is the character before the current position, if any.
\<close>

fun underscores_ok :: "char option \<Rightarrow> string \<Rightarrow> bool" where
  "underscores_ok prev [] = (prev \<noteq> Some (CHR ''_''))"
| "underscores_ok prev (c # cs) =
     (if c = CHR ''_''
      then (case prev of None \<Rightarrow> False | Some p \<Rightarrow> is_digit p \<and> underscores_ok (Some c) cs)
      else (if prev = Some (CHR ''_'') \<and> \<not> is_digit c then False
            else underscores_ok (Some c) cs))"

text \<open>
  The exponent of a float literal, after the \<^verbatim>\<open>e\<close>: an optional sign and one or more
  digits.
\<close>

definition exponent_value :: "string \<Rightarrow> int option" where
  "exponent_value s =
     (case split_sign s of
        (neg, ds) \<Rightarrow>
          (if ds \<noteq> [] \<and> list_all is_digit ds
           then Some (if neg then - digits_value (map digit_val ds)
                      else digits_value (map digit_val ds))
           else None))"

text \<open>
  An unsigned decimal literal without underscores:
  \<^verbatim>\<open>(digits ["." [digits]] | "." digits) [("e" | "E") ["+" | "-"] digits]\<close>.
\<close>

definition decimal_value :: "string \<Rightarrow> rat option" where
  "decimal_value s =
     (let ip = takeWhile is_digit s;
          r1 = dropWhile is_digit s;
          dotted = (r1 \<noteq> [] \<and> hd r1 = CHR ''.'');
          fp = (if dotted then takeWhile is_digit (tl r1) else []);
          r2 = (if dotted then dropWhile is_digit (tl r1) else r1);
          mant = of_int (digits_value (map digit_val (ip @ fp))) / of_int (10 ^ length fp)
      in if ip = [] \<and> fp = [] then None
         else if r2 = [] then Some mant
         else if hd r2 = CHR ''e'' \<or> hd r2 = CHR ''E''
         then (case exponent_value (tl r2) of
                 None \<Rightarrow> None
               | Some e \<Rightarrow> Some (if 0 \<le> e then mant * of_int (10 ^ nat e)
                                  else mant / of_int (10 ^ nat (- e))))
         else None)"

text \<open>
  \<^verbatim>\<open>float(s)\<close> for a string: underscores are checked and removed, whitespace is
  stripped, then an optional sign and either \<^verbatim>\<open>inf\<close>, \<^verbatim>\<open>infinity\<close>, \<^verbatim>\<open>nan\<close>
  (in any case) or a decimal literal.
\<close>

definition float_of_str :: "string \<Rightarrow> exn + pyfloat" where
  "float_of_str s =
     (if \<not> underscores_ok None s
      then Inl (ValueError (''could not convert string to float: '' @ s))
      else
        (case split_sign (strip (filter (\<lambda>c. c \<noteq> CHR ''_'') s)) of
           (neg, body) \<Rightarrow>
             (if map lower body = ''inf'' \<or> map lower body = ''infinity''
              then Inr (if neg then NegInf else PosInf)
              else if map lower body = ''nan'' then Inr NaN
              else (case decimal_value body of
                      None \<Rightarrow> Inl (ValueError (''could not convert string to float: '' @ s))
                    | Some r \<Rightarrow> Inr (Finite (if neg then - r else r))))))"

subsection \<open>\<^verbatim>\<open>float(v)\<close> and \<^verbatim>\<open>int(v)\<close> on a JSON value\<close>

text \<open>
  \<^verbatim>\<open>float\<close> accepts a string (parsed), a number and a bool; for \<^verbatim>\<open>None\<close>, a list or
  a dict it raises TypeError. An int too large for a float raises OverflowError.
\<close>

fun py_float :: "json \<Rightarrow> exn + pyfloat" where
  "py_float (JStr s) = float_of_str s"
| "py_float (JInt i) =
     (if 2 ^ 1024 - 2 ^ 970 \<le> \<bar>i\<bar> then Inl (OverflowError ''int too large to convert to float'')
      else Inr (Finite (of_int i)))"
| "py_float (JFloat f) = Inr f"
| "py_float (JBool b) = Inr (Finite (if b then 1 else 0))"
| "py_float JNull = Inl (TypeError ''float() argument must be a string or a real number'')"
| "py_float (JArr xs) = Inl (TypeError ''float() argument must be a string or a real number'')"
| "py_float (JObj kvs) = Inl (TypeError ''float() argument must be a string or a real number'')"

text \<open>
  \<^verbatim>\<open>int\<close> accepts a string (parsed), an int, a bool, and a float, which it truncates
  towards zero; an infinity raises OverflowError and a NaN raises ValueError.
\<close>

definition trunc_rat :: "rat \<Rightarrow> int" where
  "trunc_rat r = (if 0 \<le> r then \<lfloor>r\<rfloor> else \<lceil>r\<rceil>)"

fun py_int :: "json \<Rightarrow> exn + int" where
  "py_int (JStr s) = int_of_str s"
| "py_int (JInt i) = Inr i"
| "py_int (JFloat (Finite r)) = Inr (trunc_rat r)"
| "py_int (JFloat PosInf) = Inl (OverflowError ''cannot convert float infinity to integer'')"
| "py_int (JFloat NegInf) = Inl (OverflowError ''cannot convert float infinity to integer'')"
| "py_int (JFloat NaN) = Inl (ValueError ''cannot convert float NaN to integer'')"
| "py_int (JBool b) = Inr (if b then 1 else 0)"
| "py_int JNull = Inl (TypeError ''int() argument must be a string or a real number'')"
| "py_int (JArr xs) = Inl (TypeError ''int() argument must be a string or a real number'')"
| "py_int (JObj kvs) = Inl (TypeError ''int() argument must be a string or a real number'')"

text \<open>
  \<^verbatim>\<open>values[key]\<close>: a dict yields the value or raises KeyError; any other JSON value
  raises TypeError (a list or a string cannot be indexed by a string, the rest cannot
  be indexed at all).
\<close>

fun getitem :: "json \<Rightarrow> string \<Rightarrow> exn + json" where
  "getitem (JObj kvs) k =
     (case map_of kvs k of None \<Rightarrow> Inl (KeyError k) | Some v \<Rightarrow> Inr v)"
| "getitem v k = Inl (TypeError ''object is not subscriptable by a string'')"

section \<open>Dates and times\<close>

text \<open>
  A \<^verbatim>\<open>datetime.date\<close> is (year, month, day); a \<^verbatim>\<open>datetime.datetime\<close> is (year, month,
  day, hour, minute, second). Python compares both field by field, which is the
  lexicographic order of the tuples.
\<close>

type_synonym date = "int \<times> int \<times> int"
type_synonym datetime = "int \<times> int \<times> int \<times> int \<times> int \<times> int"

definition is_leap :: "int \<Rightarrow> bool" where
  "is_leap y = (if y mod 400 = 0 then True else if y mod 100 = 0 then False else y mod 4 = 0)"

definition days_in_month :: "int \<Rightarrow> int \<Rightarrow> int" where
  "days_in_month y m =
     (if m = 2 then (if is_leap y then 29 else 28)
      else if m = 4 \<or> m = 6 \<or> m = 9 \<or> m = 11 then 30 else 31)"

text \<open>The arguments that the \<^verbatim>\<open>datetime\<close> constructor accepts; otherwise it raises ValueError.\<close>

fun valid_datetime :: "datetime \<Rightarrow> bool" where
  "valid_datetime (y, m, d, H, M, S) =
     (1 \<le> y \<and> y \<le> 9999 \<and> 1 \<le> m \<and> m \<le> 12 \<and> 1 \<le> d \<and> d \<le> days_in_month y m
      \<and> H \<le> 23 \<and> M \<le> 59 \<and> S \<le> 59)"

fun date_of :: "datetime \<Rightarrow> date" where
  "date_of (y, m, d, H, M, S) = (y, m, d)"

fun hour :: "datetime \<Rightarrow> int" where
  "hour (y, m, d, H, M, S) = H"

fun minute :: "datetime \<Rightarrow> int" where
  "minute (y, m, d, H, M, S) = M"

fun midnight :: "date \<Rightarrow> datetime" where
  "midnight (y, m, d) = (y, m, d, 0, 0, 0)"

subsection \<open>\<^verbatim>\<open>datetime.strptime\<close>\<close>

text \<open>
  \<^verbatim>\<open>strptime\<close> turns the format into a regular expression, matches it at the start of
  the text and then requires that the match covers the whole text. Each directive is an
  alternation tried in order with backtracking, so a matcher returns the list of its
  possible results (value and remaining text) in the order of preference; the match
  found is the first of the list. Only the directives that the scripts use are
  modelled: \<^verbatim>\<open>%Y %m %d %H %M %S\<close>.
\<close>

definition between :: "char \<Rightarrow> char \<Rightarrow> char \<Rightarrow> bool" where
  "between lo hi c = ((of_char lo :: int) \<le> of_char c \<and> (of_char c :: int) \<le> of_char hi)"

definition two :: "(char \<Rightarrow> bool) \<Rightarrow> (char \<Rightarrow> bool) \<Rightarrow> string \<Rightarrow> (int \<times> string) list" where
  "two p q s =
     (case s of
        c # d # r \<Rightarrow> (if p c \<and> q d then [(10 * digit_val c + digit_val d, r)] else [])
      | _ \<Rightarrow> [])"

definition one :: "(char \<Rightarrow> bool) \<Rightarrow> string \<Rightarrow> (int \<times> string) list" where
  "one p s = (case s of c # r \<Rightarrow> (if p c then [(digit_val c, r)] else []) | [] \<Rightarrow> [])"

text \<open>\<^verbatim>\<open>%Y\<close> is \<^verbatim>\<open>\d\d\d\d\<close>.\<close>

definition re_Y :: "string \<Rightarrow> (int \<times> string) list" where
  "re_Y s =
     (case s of
        a # b # c # d # r \<Rightarrow>
          (if is_digit a \<and> is_digit b \<and> is_digit c \<and> is_digit d
           then [(digits_value (map digit_val [a, b, c, d]), r)] else [])
      | _ \<Rightarrow> [])"

text \<open>\<^verbatim>\<open>%m\<close> is \<^verbatim>\<open>1[0-2]|0[1-9]|[1-9]\<close>.\<close>

definition re_m :: "string \<Rightarrow> (int \<times> string) list" where
  "re_m s = two (between CHR ''1'' CHR ''1'') (between CHR ''0'' CHR ''2'') s
          @ two (between CHR ''0'' CHR ''0'') (between CHR ''1'' CHR ''9'') s
          @ one (between CHR ''1'' CHR ''9'') s"

text \<open>\<^verbatim>\<open>%d\<close> is \<^verbatim>\<open>3[0-1]|[1-2]\d|0[1-9]|[1-9]| [1-9]\<close>.\<close>

definition re_d :: "string \<Rightarrow> (int \<times> string) list" where
  "re_d s = two (between CHR ''3'' CHR ''3'') (between CHR ''0'' CHR ''1'') s
          @ two (between CHR ''1'' CHR ''2'') is_digit s
          @ two (between CHR ''0'' CHR ''0'') (between CHR ''1'' CHR ''9'') s
          @ one (between CHR ''1'' CHR ''9'') s
          @ (case s of c # r \<Rightarrow> (if c = CHR '' '' then one (between CHR ''1'' CHR ''9'') r else [])
             | [] \<Rightarrow> [])"

text \<open>\<^verbatim>\<open>%H\<close> is \<^verbatim>\<open>2[0-3]|[0-1]\d|\d\<close>.\<close>

definition re_H :: "string \<Rightarrow> (int \<times> string) list" where
  "re_H s = two (between CHR ''2'' CHR ''2'') (between CHR ''0'' CHR ''3'') s
          @ two (between CHR ''0'' CHR ''1'') is_digit s
          @ one is_digit s"

text \<open>\<^verbatim>\<open>%M\<close> is \<^verbatim>\<open>[0-5]\d|\d\<close>.\<close>

definition re_M :: "string \<Rightarrow> (int \<times> string) list" where
  "re_M s = two (between CHR ''0'' CHR ''5'') is_digit s @ one is_digit s"

text \<open>\<^verbatim>\<open>%S\<close> is \<^verbatim>\<open>6[0-1]|[0-5]\d|\d\<close>.\<close>

definition re_S :: "string \<Rightarrow> (int \<times> string) list" where
  "re_S s = two (between CHR ''6'' CHR ''6'') (between CHR ''0'' CHR ''1'') s
          @ two (between CHR ''0'' CHR ''5'') is_digit s
          @ one is_digit s"

text \<open>A literal character of the format.\<close>

definition lit :: "char \<Rightarrow> string \<Rightarrow> string list" where
  "lit c s = (case s of x # r \<Rightarrow> (if x = c then [r] else []) | [] \<Rightarrow> [])"

text \<open>
  Whitespace in the format becomes \<^verbatim>\<open>\s+\<close>: one or more whitespace characters, as
  many as possible first.
\<close>

definition spaces1 :: "string \<Rightarrow> string list" where
  "spaces1 s = map (\<lambda>k. drop k s) (rev [1 ..< Suc (length (takeWhile is_space s))])"

text \<open>The result of a directive, stored in its field.\<close>

fun directive :: "char \<Rightarrow> datetime \<Rightarrow> string \<Rightarrow> (datetime \<times> string) list" where
  "directive c (y, m, d, H, M, S) s =
     (if c = CHR ''Y'' then map (\<lambda>(v, r). ((v, m, d, H, M, S), r)) (re_Y s)
      else if c = CHR ''m'' then map (\<lambda>(v, r). ((y, v, d, H, M, S), r)) (re_m s)
      else if c = CHR ''d'' then map (\<lambda>(v, r). ((y, m, v, H, M, S), r)) (re_d s)
      else if c = CHR ''H'' then map (\<lambda>(v, r). ((y, m, d, v, M, S), r)) (re_H s)
      else if c = CHR ''M'' then map (\<lambda>(v, r). ((y, m, d, H, v, S), r)) (re_M s)
      else if c = CHR ''S'' then map (\<lambda>(v, r). ((y, m, d, H, M, v), r)) (re_S s)
      else [])"

text \<open>
  All matches of a format against the start of a text, in the order in which the
  regular expression engine finds them.
\<close>

fun matches :: "string \<Rightarrow> datetime \<Rightarrow> string \<Rightarrow> (datetime \<times> string) list" where
  "matches [] t s = [(t, s)]"
| "matches (f # fs) t s =
     (if f = CHR ''%''
      then (case fs of
              [] \<Rightarrow> []
            | c # fs' \<Rightarrow> concat (map (\<lambda>(t', r). matches fs' t' r) (directive c t s)))
      else if is_space f
      then (if fs \<noteq> [] \<and> is_space (hd fs) then matches fs t s
            else concat (map (matches fs t) (spaces1 s)))
      else concat (map (matches fs t) (lit f s)))"

text \<open>
  \<^verbatim>\<open>datetime.strptime(data_string, format)\<close>. Fields that the format does not set
  keep their defaults (1900-01-01 00:00:00). Every failure is a ValueError: no match,
  text left over after the match, or a date that does not exist.
\<close>

definition strptime :: "string \<Rightarrow> string \<Rightarrow> exn + datetime" where
  "strptime data_string format =
     (case matches format (1900, 1, 1, 0, 0, 0) data_string of
        [] \<Rightarrow> Inl (ValueError (''time data does not match format: '' @ data_string))
      | (t, r) # _ \<Rightarrow>
          (if r \<noteq> [] then Inl (ValueError (''unconverted data remains: '' @ r))
           else if valid_datetime t then Inr t
           else Inl (ValueError (''value out of range: '' @ data_string))))"

subsection \<open>\<^verbatim>\<open>datetime.strftime\<close>\<close>

definition digit_char :: "int \<Rightarrow> char" where
  "digit_char n = ''0123456789'' ! nat (n mod 10)"

definition pad2 :: "int \<Rightarrow> string" where
  "pad2 n = [digit_char (n div 10), digit_char n]"

definition pad4 :: "int \<Rightarrow> string" where
  "pad4 n = [digit_char (n div 1000), digit_char (n div 100), digit_char (n div 10), digit_char n]"

text \<open>
  Formatting with the same six directives; any other character of the format is copied.
  The year is written with four digits (for a year below 1000 the C library decides
  about the padding; such years do not occur in market data).
\<close>

fun strftime :: "datetime \<Rightarrow> string \<Rightarrow> string" where
  "strftime t [] = []"
| "strftime t [f] = [f]"
| "strftime (y, m, d, H, M, S) (f # c # fs) =
     (if f = CHR ''%''
      then (if c = CHR ''Y'' then pad4 y else if c = CHR ''m'' then pad2 m
            else if c = CHR ''d'' then pad2 d else if c = CHR ''H'' then pad2 H
            else if c = CHR ''M'' then pad2 M else if c = CHR ''S'' then pad2 S
            else [f, c]) @ strftime (y, m, d, H, M, S) fs
      else f # strftime (y, m, d, H, M, S) (c # fs))"

section \<open>The store\<close>

text \<open>
  The relational store is an external collaborator. What is modelled of it:
  whether a connection can be had at all; the four tables of \<^verbatim>\<open>create_tables\<close> as
  lists of rows in insertion order; the primary key (company_symbol, date or
  date_time) of the three data tables; the foreign key from the data tables to
  \<^verbatim>\<open>companies\<close>. The coercion of column types (the length of \<^verbatim>\<open>VARCHAR(10)\<close>, the
  range of \<^verbatim>\<open>DECIMAL(15, 4)\<close> and \<^verbatim>\<open>BIGINT\<close>) is not modelled: a row keeps the Python
  values it was given.
\<close>

type_synonym price_values = "pyfloat \<times> pyfloat \<times> pyfloat \<times> pyfloat \<times> int"

record ('t, 'v) row =
  company_symbol :: string
  stamp :: 't
  vals :: 'v

record store =
  connected :: bool
  companies :: "string list"
  daily_stock_prices :: "(date, price_values) row list"
  intraday_stock_prices :: "(datetime, price_values) row list"
  sma_indicators :: "(datetime, pyfloat) row list"

text \<open>
  The value of \<^verbatim>\<open>MAX(date)\<close> or \<^verbatim>\<open>MAX(date_time)\<close>: a \<^verbatim>\<open>datetime.date\<close> for a
  \<^verbatim>\<open>DATE\<close> column, a \<^verbatim>\<open>datetime.datetime\<close> for a \<^verbatim>\<open>TIMESTAMP\<close> column.
\<close>

datatype pyts = PyDate date | PyDateTime datetime

text \<open>\<^verbatim>\<open>SELECT MAX(stamp) FROM table WHERE company_symbol = symbol\<close>; NULL is \<open>None\<close>.\<close>

definition max_stamp :: "('t::linorder, 'v) row list \<Rightarrow> string \<Rightarrow> 't option" where
  "max_stamp tbl symbol =
     (case map stamp (filter (\<lambda>r. company_symbol r = symbol) tbl) of
        [] \<Rightarrow> None
      | t # ts \<Rightarrow> Some (fold max ts t))"

text \<open>
  The query \<^verbatim>\<open>SELECT MAX(column) FROM table WHERE company_symbol = symbol\<close> followed
  by \<^verbatim>\<open>fetchone()[0]\<close>. It fails without a connection, for a table that does not exist
  and for a column that the table does not have: \<^verbatim>\<open>daily_stock_prices\<close> has a
  \<^verbatim>\<open>date\<close> column, the other two data tables have \<^verbatim>\<open>date_time\<close>.
\<close>

definition select_max :: "store \<Rightarrow> string \<Rightarrow> string \<Rightarrow> string \<Rightarrow> exn + pyts option" where
  "select_max st column table symbol =
     (if \<not> connected st then Inl (DatabaseError ''connection failed'')
      else if table = ''daily_stock_prices''
      then (if column = ''date''
            then Inr (map_option PyDate (max_stamp (daily_stock_prices st) symbol))
            else Inl (DatabaseError (''column does not exist: '' @ column)))
      else if table = ''intraday_stock_prices''
      then (if column = ''date_time''
            then Inr (map_option PyDateTime (max_stamp (intraday_stock_prices st) symbol))
            else Inl (DatabaseError (''column does not exist: '' @ column)))
      else if table = ''sma_indicators''
      then (if column = ''date_time''
            then Inr (map_option PyDateTime (max_stamp (sma_indicators st) symbol))
            else Inl (DatabaseError (''column does not exist: '' @ column)))
      else Inl (DatabaseError (''relation or column does not exist: '' @ table)))"

text \<open>
  The store reads the text of a \<^verbatim>\<open>DATE\<close> or \<^verbatim>\<open>TIMESTAMP\<close> value. The scripts pass
  the API's key, or text that \<^verbatim>\<open>strftime\<close> produced; the store is taken to read
  \<^verbatim>\<open>YYYY-MM-DD\<close> and \<^verbatim>\<open>YYYY-MM-DD HH:MM:SS\<close> as \<^verbatim>\<open>strptime\<close> does, a date alone
  being midnight when a timestamp is wanted, and to reject any other text.
\<close>

definition cast_date :: "string \<Rightarrow> date option" where
  "cast_date s = (case strptime s ''%Y-%m-%d'' of Inr t \<Rightarrow> Some (date_of t) | Inl e \<Rightarrow> None)"

definition cast_timestamp :: "string \<Rightarrow> datetime option" where
  "cast_timestamp s =
     (case strptime s ''%Y-%m-%d %H:%M:%S'' of
        Inr t \<Rightarrow> Some t
      | Inl e \<Rightarrow> (case strptime s ''%Y-%m-%d'' of Inr t \<Rightarrow> Some t | Inl e' \<Rightarrow> None))"

text \<open>Whether the table has a row with this primary key.\<close>

definition has_key :: "('t, 'v) row list \<Rightarrow> string \<Rightarrow> 't \<Rightarrow> bool" where
  "has_key tbl symbol t = ((symbol, t) \<in> set (map (\<lambda>r. (company_symbol r, stamp r)) tbl))"

text \<open>
  \<^verbatim>\<open>INSERT ... ON CONFLICT DO NOTHING\<close> (PostgreSQL) and \<^verbatim>\<open>INSERT OR IGNORE\<close> (DuckDB)
  for the rows of one \<^verbatim>\<open>executemany\<close>, one after the other: a row whose key is present
  is skipped; a new row needs its company, else the statement fails.
\<close>

fun insert_or_ignore ::
  "string list \<Rightarrow> ('t, 'v) row list \<Rightarrow> ('t, 'v) row list \<Rightarrow> exn + ('t, 'v) row list" where
  "insert_or_ignore comps [] tbl = Inr tbl"
| "insert_or_ignore comps (r # rs) tbl =
     (if has_key tbl (company_symbol r) (stamp r) then insert_or_ignore comps rs tbl
      else if company_symbol r \<notin> set comps
      then Inl (DatabaseError (''foreign key violation: '' @ company_symbol r))
      else insert_or_ignore comps rs (tbl @ [r]))"

text \<open>The rows for a batch of Python tuples, once the store has read their timestamps.\<close>

fun cast_rows :: "(string \<Rightarrow> 't option) \<Rightarrow> (string \<times> string \<times> 'v) list \<Rightarrow> ('t, 'v) row list option" where
  "cast_rows cast [] = Some []"
| "cast_rows cast ((symbol, text, v) # ps) =
     (case cast text of
        None \<Rightarrow> None
      | Some t \<Rightarrow>
          map_option ((#) \<lparr>company_symbol = symbol, stamp = t, vals = v\<rparr>) (cast_rows cast ps))"

text \<open>
  \<^verbatim>\<open>execute_batch\<close> of the parallel scripts: \<^verbatim>\<open>executemany\<close> with the insert statement of
  a table, then commit. On any failure the exception is raised again after a rollback,
  so the store is then as it was.
\<close>

definition batch_insert ::
  "store \<Rightarrow> (string \<Rightarrow> 't option) \<Rightarrow> ('t, 'v) row list \<Rightarrow> (string \<times> string \<times> 'v) list
     \<Rightarrow> exn + ('t, 'v) row list" where
  "batch_insert st cast tbl values_list =
     (if \<not> connected st then Inl (DatabaseError ''connection failed'')
      else (case cast_rows cast values_list of
              None \<Rightarrow> Inl (DatabaseError ''invalid input syntax for a date or timestamp'')
            | Some rows \<Rightarrow> insert_or_ignore (companies st) rows tbl))"

definition execute_batch_daily ::
  "store \<Rightarrow> (string \<times> string \<times> price_values) list \<Rightarrow> exn + store" where
  "execute_batch_daily st values_list =
     (case batch_insert st cast_date (daily_stock_prices st) values_list of
        Inl e \<Rightarrow> Inl e
      | Inr tbl \<Rightarrow> Inr (st\<lparr>daily_stock_prices := tbl\<rparr>))"

definition execute_batch_intraday ::
  "store \<Rightarrow> (string \<times> string \<times> price_values) list \<Rightarrow> exn + store" where
  "execute_batch_intraday st values_list =
     (case batch_insert st cast_timestamp (intraday_stock_prices st) values_list of
        Inl e \<Rightarrow> Inl e
      | Inr tbl \<Rightarrow> Inr (st\<lparr>intraday_stock_prices := tbl\<rparr>))"

definition execute_batch_sma ::
  "store \<Rightarrow> (string \<times> string \<times> pyfloat) list \<Rightarrow> exn + store" where
  "execute_batch_sma st values_list =
     (case batch_insert st cast_timestamp (sma_indicators st) values_list of
        Inl e \<Rightarrow> Inl e
      | Inr tbl \<Rightarrow> Inr (st\<lparr>sma_indicators := tbl\<rparr>))"

section \<open>The parallel scripts\<close>

text \<open>
  \<^verbatim>\<open>main_parallel.py\<close> (PostgreSQL) and \<^verbatim>\<open>main_parallel_duckdb.py\<close> (DuckDB) have the
  same functions; where their text differs the model takes the script as a parameter.
\<close>

datatype variant = Postgres | DuckDB

text \<open>Sequencing of computations that may raise.\<close>

definition and_then :: "exn + 'a \<Rightarrow> ('a \<Rightarrow> exn + 'b) \<Rightarrow> exn + 'b" where
  "and_then m f = (case m of Inl e \<Rightarrow> Inl e | Inr x \<Rightarrow> f x)"

subsection \<open>\<^verbatim>\<open>check_last_date\<close> and \<^verbatim>\<open>ensure_company_exists\<close>\<close>

text \<open>
  The query is chosen by the table name; any exception of the store is logged and the
  result is \<^verbatim>\<open>None\<close>. (\<^verbatim>\<open>result[0] if result and result[0] else None\<close>: the row of an
  aggregate always exists, and a date is never false.)
\<close>

definition check_last_date :: "store \<Rightarrow> string \<Rightarrow> string \<Rightarrow> pyts option" where
  "check_last_date st symbol table =
     (case (if table = ''daily_stock_prices''
            then select_max st ''date'' ''daily_stock_prices'' symbol
            else select_max st ''date_time'' table symbol) of
        Inl e \<Rightarrow> None
      | Inr result \<Rightarrow> result)"

text \<open>Insert the company unless it is there; an exception of the store is logged.\<close>

definition ensure_company_exists :: "string \<Rightarrow> store \<Rightarrow> store" where
  "ensure_company_exists symbol st =
     (if connected st \<and> symbol \<notin> set (companies st)
      then st\<lparr>companies := companies st @ [symbol]\<rparr> else st)"

subsection \<open>\<^verbatim>\<open>fetch_api_data\<close>\<close>

text \<open>
  The remote API is a function from the endpoint and the symbol to what the request
  does: it raises (a network failure, an HTTP error status, a body that is not JSON) or
  it returns the decoded body.
\<close>

datatype http_result = Raises exn | Returns json

type_synonym api = "string \<Rightarrow> string \<Rightarrow> http_result"

text \<open>
  A \<^verbatim>\<open>requests.RequestException\<close> is logged and an empty dict is returned; any other
  exception propagates. The DuckDB script also formats \<^verbatim>\<open>list(data.keys())\<close> for a
  debug message, which raises AttributeError when the body is not an object.
\<close>

definition fetch_api_data :: "variant \<Rightarrow> api \<Rightarrow> string \<Rightarrow> string \<Rightarrow> exn + json" where
  "fetch_api_data v api endpoint symbol =
     (case api endpoint symbol of
        Raises e \<Rightarrow> (if request_exception e then Inr (JObj []) else Inl e)
      | Returns data \<Rightarrow>
          (case v of
             Postgres \<Rightarrow> Inr data
           | DuckDB \<Rightarrow>
               (case data of
                  JObj kvs \<Rightarrow> Inr data
                | _ \<Rightarrow> Inl (AttributeError ''object has no attribute keys''))))"

subsection \<open>The record loops\<close>

text \<open>\<^verbatim>\<open>last_date is not None and date_obj <= last_date\<close>, for a date and for a datetime.\<close>

fun date_not_after :: "date \<Rightarrow> pyts option \<Rightarrow> exn + bool" where
  "date_not_after d None = Inr False"
| "date_not_after d (Some (PyDate w)) = Inr (d \<le> w)"
| "date_not_after d (Some (PyDateTime w)) =
     Inl (TypeError ''cannot compare datetime.date to datetime.datetime'')"

fun datetime_not_after :: "datetime \<Rightarrow> pyts option \<Rightarrow> exn + bool" where
  "datetime_not_after t None = Inr False"
| "datetime_not_after t (Some (PyDateTime w)) = Inr (t \<le> w)"
| "datetime_not_after t (Some (PyDate w)) =
     Inl (TypeError ''cannot compare datetime.datetime to datetime.date'')"

text \<open>
  The five fields of a price record, converted from left to right:
  \<^verbatim>\<open>float(values['1. open'])\<close>, ..., \<^verbatim>\<open>int(values['5. volume'])\<close>.
\<close>

definition price_fields :: "json \<Rightarrow> exn + price_values" where
  "price_fields values =
     and_then (and_then (getitem values ''1. open'') py_float) (\<lambda>opn.
     and_then (and_then (getitem values ''2. high'') py_float) (\<lambda>hi.
     and_then (and_then (getitem values ''3. low'') py_float) (\<lambda>lo.
     and_then (and_then (getitem values ''4. close'') py_float) (\<lambda>cl.
     and_then (and_then (getitem values ''5. volume'') py_int) (\<lambda>vol.
       Inr (opn, hi, lo, cl, vol))))))"

text \<open>
  The shape shared by the three loops:
  \<^verbatim>\<open>for key, values in data.items(): try: ... except (KeyError, ValueError): warning\<close>.
  The body yields \<open>None\<close> when it ends in \<^verbatim>\<open>continue\<close> and a tuple when it appends
  one; a KeyError or a ValueError skips the item; any other exception leaves the loop.
\<close>

fun for_items :: "('i \<Rightarrow> exn + 'r option) \<Rightarrow> 'i list \<Rightarrow> 'r list \<Rightarrow> exn + 'r list" where
  "for_items body [] values_list = Inr values_list"
| "for_items body (x # xs) values_list =
     (case body x of
        Inr None \<Rightarrow> for_items body xs values_list
      | Inr (Some r) \<Rightarrow> for_items body xs (values_list @ [r])
      | Inl e \<Rightarrow> (if key_or_value_error e then for_items body xs values_list else Inl e))"

text \<open>\<^verbatim>\<open>data.items()\<close>: only a dict has it.\<close>

fun dict_items :: "json \<Rightarrow> exn + (string \<times> json) list" where
  "dict_items (JObj kvs) = Inr kvs"
| "dict_items v = Inl (AttributeError ''object has no attribute items'')"

subsection \<open>\<^verbatim>\<open>process_daily_stock_prices\<close>\<close>

definition daily_body ::
  "string \<Rightarrow> pyts option \<Rightarrow> string \<times> json \<Rightarrow> exn + (string \<times> string \<times> price_values) option" where
  "daily_body symbol last_date item =
     (case item of
        (date_str, values) \<Rightarrow>
          and_then (strptime date_str ''%Y-%m-%d'') (\<lambda>t.
          and_then (date_not_after (date_of t) last_date) (\<lambda>old.
            if old then Inr None
            else and_then (price_fields values) (\<lambda>f. Inr (Some (symbol, date_str, f))))))"

definition process_daily_stock_prices :: "string \<Rightarrow> json \<Rightarrow> store \<Rightarrow> exn + store" where
  "process_daily_stock_prices symbol time_series_data st =
     (if \<not> truthy time_series_data then Inr st
      else
        (let last_date = check_last_date st symbol ''daily_stock_prices'' in
         and_then (dict_items time_series_data) (\<lambda>kvs.
         and_then (for_items (daily_body symbol last_date) kvs []) (\<lambda>values_list.
           if values_list = [] then Inr st else execute_batch_daily st values_list))))"

subsection \<open>\<^verbatim>\<open>process_intraday_stock_prices\<close>\<close>

definition intraday_body ::
  "string \<Rightarrow> pyts option \<Rightarrow> string \<times> json \<Rightarrow> exn + (string \<times> string \<times> price_values) option" where
  "intraday_body symbol last_date item =
     (case item of
        (date_time_str, values) \<Rightarrow>
          and_then (strptime date_time_str ''%Y-%m-%d %H:%M:%S'') (\<lambda>t.
          and_then (datetime_not_after t last_date) (\<lambda>old.
            if old then Inr None
            else and_then (price_fields values) (\<lambda>f. Inr (Some (symbol, date_time_str, f))))))"

definition process_intraday_stock_prices :: "string \<Rightarrow> json \<Rightarrow> store \<Rightarrow> exn + store" where
  "process_intraday_stock_prices symbol time_series_data st =
     (if \<not> truthy time_series_data then Inr st
      else
        (let last_date = check_last_date st symbol ''intraday_stock_prices'' in
         and_then (dict_items time_series_data) (\<lambda>kvs.
         and_then (for_items (intraday_body symbol last_date) kvs []) (\<lambda>values_list.
           if values_list = [] then Inr st else execute_batch_intraday st values_list))))"

subsection \<open>\<^verbatim>\<open>process_sma_indicators\<close>\<close>

fun value_error :: "exn \<Rightarrow> bool" where
  "value_error (ValueError m) = True"
| "value_error e = False"

text \<open>
  \<^verbatim>\<open>try: strptime(s, first) except ValueError: strptime(s, second)\<close>. The PostgreSQL
  script tries the full timestamp first and then the date; the DuckDB script tries the
  date first and then the full timestamp.
\<close>

definition try_formats :: "string \<Rightarrow> string \<Rightarrow> string \<Rightarrow> exn + datetime" where
  "try_formats s first second =
     (case strptime s first of
        Inr t \<Rightarrow> Inr t
      | Inl e \<Rightarrow> (if value_error e then strptime s second else Inl e))"

definition sma_strptime :: "variant \<Rightarrow> string \<Rightarrow> exn + datetime" where
  "sma_strptime v date_time_str =
     (case v of
        Postgres \<Rightarrow> try_formats date_time_str ''%Y-%m-%d %H:%M:%S'' ''%Y-%m-%d''
      | DuckDB \<Rightarrow> try_formats date_time_str ''%Y-%m-%d'' ''%Y-%m-%d %H:%M:%S'')"

text \<open>
  The text stored as \<^verbatim>\<open>date_time\<close>. The PostgreSQL script passes the key as it is. The
  DuckDB script formats the parsed value:
  \<^verbatim>\<open>strftime('%Y-%m-%d %H:%M:%S') if hour or minute else strftime('%Y-%m-%d 00:00:00')\<close>.
\<close>

definition sma_timestamp_str :: "variant \<Rightarrow> string \<Rightarrow> datetime \<Rightarrow> string" where
  "sma_timestamp_str v date_time_str t =
     (case v of
        Postgres \<Rightarrow> date_time_str
      | DuckDB \<Rightarrow>
          (if hour t \<noteq> 0 \<or> minute t \<noteq> 0 then strftime t ''%Y-%m-%d %H:%M:%S''
           else strftime t ''%Y-%m-%d 00:00:00''))"

definition sma_body ::
  "variant \<Rightarrow> string \<Rightarrow> pyts option \<Rightarrow> string \<times> json \<Rightarrow> exn + (string \<times> string \<times> pyfloat) option" where
  "sma_body v symbol last_date item =
     (case item of
        (date_time_str, values) \<Rightarrow>
          and_then (sma_strptime v date_time_str) (\<lambda>t.
          and_then (datetime_not_after t last_date) (\<lambda>old.
            if old then Inr None
            else and_then (and_then (getitem values ''SMA'') py_float) (\<lambda>x.
                   Inr (Some (symbol, sma_timestamp_str v date_time_str t, x))))))"

definition process_sma_indicators :: "variant \<Rightarrow> string \<Rightarrow> json \<Rightarrow> store \<Rightarrow> exn + store" where
  "process_sma_indicators v symbol indicator_data st =
     (if \<not> truthy indicator_data then Inr st
      else
        (let last_date = check_last_date st symbol ''sma_indicators'' in
         and_then (dict_items indicator_data) (\<lambda>kvs.
         and_then (for_items (sma_body v symbol last_date) kvs []) (\<lambda>values_list.
           if values_list = [] then Inr st else execute_batch_sma st values_list))))"

subsection \<open>\<^verbatim>\<open>process_symbol_endpoint\<close>\<close>

text \<open>The result dict of a task.\<close>

record task_outcome =
  o_symbol :: string
  o_endpoint :: string
  success :: bool
  message :: json

text \<open>\<^verbatim>\<open>key in json_data\<close>, for whatever the body decoded to.\<close>

definition is_substring :: "string \<Rightarrow> string \<Rightarrow> bool" where
  "is_substring k s = list_ex (\<lambda>i. take (length k) (drop i s) = k) [0 ..< Suc (length s)]"

fun contains :: "json \<Rightarrow> string \<Rightarrow> exn + bool" where
  "contains (JObj kvs) k = Inr (k \<in> set (map fst kvs))"
| "contains (JArr xs) k = Inr (JStr k \<in> set xs)"
| "contains (JStr s) k = Inr (is_substring k s)"
| "contains v k = Inl (TypeError ''argument is not iterable'')"

text \<open>\<^verbatim>\<open>json_data.get(key, {})\<close>: only a dict has it.\<close>

fun dict_get :: "json \<Rightarrow> string \<Rightarrow> exn + json" where
  "dict_get (JObj kvs) k = Inr (case map_of kvs k of None \<Rightarrow> JObj [] | Some v \<Rightarrow> v)"
| "dict_get v k = Inl (AttributeError ''object has no attribute get'')"

text \<open>
  The \<^verbatim>\<open>try\<close> block of \<^verbatim>\<open>process_symbol_endpoint\<close>. It returns early with the value of
  \<^verbatim>\<open>Error Message\<close> or \<^verbatim>\<open>Note\<close> as the message (\<open>Some\<close>), or runs to its end
  (\<open>None\<close>), or raises. The store that comes back is the one the processing left.
\<close>

definition try_block ::
  "variant \<Rightarrow> api \<Rightarrow> string \<Rightarrow> string \<Rightarrow> store \<Rightarrow> exn + (json option \<times> store)" where
  "try_block v api symbol endpoint st =
     and_then (fetch_api_data v api endpoint symbol) (\<lambda>json_data.
     and_then (contains json_data ''Error Message'') (\<lambda>has_error.
       if has_error
       then and_then (getitem json_data ''Error Message'') (\<lambda>m. Inr (Some m, st))
       else
         and_then (contains json_data ''Note'') (\<lambda>has_note.
           if has_note
           then and_then (getitem json_data ''Note'') (\<lambda>m. Inr (Some m, st))
           else if endpoint = ''TIME_SERIES_DAILY''
           then and_then (dict_get json_data ''Time Series (Daily)'') (\<lambda>time_series_data.
                and_then (process_daily_stock_prices symbol time_series_data st) (\<lambda>st'.
                  Inr (None, st')))
           else if endpoint = ''TIME_SERIES_INTRADAY''
           then and_then (dict_get json_data ''Time Series (5min)'') (\<lambda>time_series_data.
                and_then (process_intraday_stock_prices symbol time_series_data st) (\<lambda>st'.
                  Inr (None, st')))
           else if endpoint = ''SMA''
           then and_then (dict_get json_data ''Technical Analysis: SMA'') (\<lambda>indicator_data.
                and_then (process_sma_indicators v symbol indicator_data st) (\<lambda>st'.
                  Inr (None, st')))
           else Inr (None, st))))"

text \<open>
  The task: the result starts as a failure with an empty message; an exception of the
  \<^verbatim>\<open>try\<close> block becomes the message \<^verbatim>\<open>str(e)\<close>. The function returns a result in every
  case, together with the store as the task left it.
\<close>

definition process_symbol_endpoint ::
  "variant \<Rightarrow> api \<Rightarrow> string \<Rightarrow> string \<Rightarrow> store \<Rightarrow> task_outcome \<times> store" where
  "process_symbol_endpoint v api symbol endpoint st =
     (let result = \<lparr>o_symbol = symbol, o_endpoint = endpoint, success = False, message = JStr []\<rparr>
      in case try_block v api symbol endpoint st of
           Inl e \<Rightarrow> (result\<lparr>message := JStr (str_exn e)\<rparr>, st)
         | Inr (Some m, st') \<Rightarrow> (result\<lparr>message := m\<rparr>, st')
         | Inr (None, st') \<Rightarrow>
             (result\<lparr>success := True, message := JStr ''Processed successfully''\<rparr>, st'))"

subsection \<open>\<^verbatim>\<open>run_parallel_etl\<close>\<close>

text \<open>
  The worker pool runs the tasks concurrently and \<^verbatim>\<open>as_completed\<close> yields every future
  once, in the order in which the tasks finish. The model runs the tasks one after the
  other in that order, each on the store that the tasks before it left; the order is
  not fixed by the program, so it is a parameter: \<open>choices\<close> says, at each step, which
  of the pending tasks finishes next (taken modulo their number).
\<close>

function completion_order :: "nat list \<Rightarrow> 'a list \<Rightarrow> 'a list" where
  "completion_order choices [] = []"
| "completion_order choices (p # ps) =
     (let i = (case choices of [] \<Rightarrow> 0 | c # cs \<Rightarrow> c mod length (p # ps))
      in (p # ps) ! i # completion_order (tl choices) (take i (p # ps) @ drop (Suc i) (p # ps)))"
  by pat_completeness auto
termination
  by (relation "measure (\<lambda>(choices, pending). length pending)") (auto split: list.splits)

fun run_tasks ::
  "variant \<Rightarrow> api \<Rightarrow> (string \<times> string) list \<Rightarrow> store \<Rightarrow> task_outcome list \<times> store" where
  "run_tasks v api [] st = ([], st)"
| "run_tasks v api ((symbol, endpoint) # tasks) st =
     (case process_symbol_endpoint v api symbol endpoint st of
        (result, st') \<Rightarrow>
          (case run_tasks v api tasks st' of (results, st'') \<Rightarrow> (result # results, st'')))"

text \<open>
  The run: first every company is ensured, then the tasks of the cross product are
  run. It returns the results; the model also returns the two counts of the summary
  line and the store.
\<close>

record etl_summary =
  results :: "task_outcome list"
  successful :: nat
  failed :: nat
  final_store :: store

definition run_parallel_etl ::
  "variant \<Rightarrow> string list \<Rightarrow> string list \<Rightarrow> api \<Rightarrow> nat list \<Rightarrow> store \<Rightarrow> etl_summary" where
  "run_parallel_etl v symbols endpoints api choices st =
     (let st1 = fold ensure_company_exists symbols st;
          tasks = concat (map (\<lambda>symbol. map (\<lambda>endpoint. (symbol, endpoint)) endpoints) symbols)
      in case run_tasks v api (completion_order choices tasks) st1 of
           (rs, st2) \<Rightarrow>
             \<lparr>results = rs,
              successful = length (filter success rs),
              failed = length rs - length (filter success rs),
              final_store = st2\<rparr>)"

section \<open>The sequential scripts\<close>

text \<open>
  \<^verbatim>\<open>main.py\<close> (PostgreSQL, \<open>Postgres\<close> below) and \<^verbatim>\<open>main_duckdb.py\<close> (\<open>DuckDB\<close>) work
  on one connection with one cursor, every statement committed on its own. Their
  \<^verbatim>\<open>execute_query\<close> logs every exception of the cursor and returns normally. Of the
  three data sets the daily one is modelled; the other two have the same text with
  other names.
\<close>

subsection \<open>\<^verbatim>\<open>check_last_date\<close>\<close>


subsection \<open>\<^verbatim>\<open>insert_daily_stock_prices\<close>\<close>



subsection \<open>\<^verbatim>\<open>update_daily_stock_prices\<close>\<close>





section \<open>Example inputs\<close>

text \<open>Concrete stores and API behaviours at which the properties below are instantiated.\<close>

definition example_store :: store where
  "example_store =
     \<lparr>connected = True, companies = [''AAPL'', ''IBM''], daily_stock_prices = [],
      intraday_stock_prices = [], sma_indicators = []\<rparr>"

text \<open>A valid daily record, and one whose first field is \<^verbatim>\<open>null\<close>.\<close>

definition valid_record :: json where
  "valid_record =
     JObj [(''1. open'', JStr ''190.0''), (''2. high'', JStr ''192.0''), (''3. low'', JStr ''189.0''),
           (''4. close'', JStr ''191.5''), (''5. volume'', JStr ''1000000'')]"

definition null_record :: json where
  "null_record =
     JObj [(''1. open'', JNull), (''2. high'', JStr ''192.0''), (''3. low'', JStr ''189.0''),
           (''4. close'', JStr ''191.5''), (''5. volume'', JStr ''1000000'')]"

text \<open>An API that answers with an error message, a rate-limit note or an unrelated object.\<close>

definition example_api :: api where
  "example_api endpoint symbol =
     (if symbol = ''AAPL'' then Returns (JObj [(''Error Message'', JStr ''Invalid API call'')])
      else if symbol = ''IBM'' then Returns (JObj [(''Note'', JStr ''rate limit reached'')])
      else Returns (JObj [(''Information'', JStr ''no data'')]))"



text \<open>An API whose daily series has a record with a \<^verbatim>\<open>null\<close> field before a valid record.\<close>

definition null_field_api :: api where
  "null_field_api endpoint symbol =
     Returns (JObj [(''Time Series (Daily)'',
                    JObj [(''2024-01-02'', null_record), (''2024-01-03'', valid_record)])])"



text \<open>An SMA series with one value under a key that is a date.\<close>

definition sma_series :: "(string \<times> json) list" where
  "sma_series = [(''2024-01-02'', JObj [(''SMA'', JStr ''150.25'')])]"

section \<open>Properties\<close>

lemma key_or_value_error_cases:
  "key_or_value_error e \<longleftrightarrow> (\<exists>m. e = KeyError m \<or> e = ValueError m)"
  by (cases e) auto

subsection \<open>The scheduler\<close>

lemma mset_completion_order: "mset (completion_order choices xs) = mset xs"
proof (induction choices xs rule: completion_order.induct)
  case (1 choices)
  show ?case by simp
next
  case (2 choices p ps)
  define i where "i = (case choices of [] \<Rightarrow> 0 | c # cs \<Rightarrow> c mod length (p # ps))"
  have i: "i < length (p # ps)"
    by (cases choices) (simp_all add: i_def)
  have split: "p # ps = take i (p # ps) @ (p # ps) ! i # drop (Suc i) (p # ps)"
    using i by (rule id_take_nth_drop)
  have "mset (completion_order choices (p # ps))
        = add_mset ((p # ps) ! i) (mset (take i (p # ps) @ drop (Suc i) (p # ps)))"
    using "2.IH" [of i] by (simp add: i_def Let_def)
  also have "\<dots> = mset (take i (p # ps) @ (p # ps) ! i # drop (Suc i) (p # ps))"
    by simp
  also have "\<dots> = mset (p # ps)"
    using split by simp
  finally show ?case .
qed

lemma length_completion_order: "length (completion_order choices xs) = length xs"
  using mset_completion_order [of choices xs] by (metis size_mset)

lemma set_completion_order: "set (completion_order choices xs) = set xs"
  using mset_completion_order [of choices xs] by (metis set_mset_mset)

lemma process_symbol_endpoint_task:
  "o_symbol (fst (process_symbol_endpoint v api symbol endpoint st)) = symbol \<and>
   o_endpoint (fst (process_symbol_endpoint v api symbol endpoint st)) = endpoint"
  by (simp add: process_symbol_endpoint_def Let_def split: sum.splits prod.splits option.splits)

lemma run_tasks_tasks:
  "map (\<lambda>r. (o_symbol r, o_endpoint r)) (fst (run_tasks v api tasks st)) = tasks"
proof (induction tasks arbitrary: st)
  case Nil
  show ?case by simp
next
  case (Cons t tasks)
  obtain symbol endpoint where t: "t = (symbol, endpoint)" by (cases t)
  obtain r st' where p: "process_symbol_endpoint v api symbol endpoint st = (r, st')"
    by (cases "process_symbol_endpoint v api symbol endpoint st")
  obtain rs st'' where q: "run_tasks v api tasks st' = (rs, st'')"
    by (cases "run_tasks v api tasks st'")
  have "o_symbol r = symbol \<and> o_endpoint r = endpoint"
    using process_symbol_endpoint_task [of v api symbol endpoint st] p by simp
  moreover have "map (\<lambda>r. (o_symbol r, o_endpoint r)) rs = tasks"
    using Cons.IH [of st'] q by simp
  ultimately show ?case by (simp add: t p q)
qed

lemma length_cross_product:
  "length (concat (map (\<lambda>symbol. map (\<lambda>endpoint. (symbol, endpoint)) endpoints) symbols))
   = length symbols * length endpoints"
  by (induction symbols) simp_all

text \<open>
  C8. For every list of symbols and every list of endpoints, whatever the order in
  which the tasks finish (\<open>choices\<close>), the results of \<^verbatim>\<open>run_parallel_etl\<close> name exactly
  the pairs of the cross product, each as often as the cross product has it, so there
  are \<open>length symbols * length endpoints\<close> results; and the two counts of the summary,
  the successful results and the rest, add up to that number.
\<close>

theorem run_parallel_etl_one_outcome_per_task:
  "mset (map (\<lambda>r. (o_symbol r, o_endpoint r))
           (results (run_parallel_etl v symbols endpoints api choices st)))
     = mset (concat (map (\<lambda>symbol. map (\<lambda>endpoint. (symbol, endpoint)) endpoints) symbols))
   \<and> length (results (run_parallel_etl v symbols endpoints api choices st))
     = length symbols * length endpoints
   \<and> successful (run_parallel_etl v symbols endpoints api choices st)
     + failed (run_parallel_etl v symbols endpoints api choices st)
     = length symbols * length endpoints
   \<and> successful (run_parallel_etl v symbols endpoints api choices st)
     = length (filter success (results (run_parallel_etl v symbols endpoints api choices st)))"
proof -
  define tasks where
    "tasks = concat (map (\<lambda>symbol. map (\<lambda>endpoint. (symbol, endpoint)) endpoints) symbols)"
  define st1 where "st1 = fold ensure_company_exists symbols st"
  obtain rs st2 where run: "run_tasks v api (completion_order choices tasks) st1 = (rs, st2)"
    by (cases "run_tasks v api (completion_order choices tasks) st1")
  have res: "results (run_parallel_etl v symbols endpoints api choices st) = rs"
    and suc: "successful (run_parallel_etl v symbols endpoints api choices st)
              = length (filter success rs)"
    and fai: "failed (run_parallel_etl v symbols endpoints api choices st)
              = length rs - length (filter success rs)"
    using run by (simp_all add: run_parallel_etl_def Let_def tasks_def st1_def)
  have tasks_of: "map (\<lambda>r. (o_symbol r, o_endpoint r)) rs = completion_order choices tasks"
    using run_tasks_tasks [of v api "completion_order choices tasks" st1] run by simp
  have len: "length rs = length symbols * length endpoints"
  proof -
    have "length rs = length (completion_order choices tasks)"
      using tasks_of by (metis length_map)
    then show ?thesis
      by (simp add: length_completion_order tasks_def length_cross_product)
  qed
  have "length (filter success rs) \<le> length rs" by simp
  then have sum: "length (filter success rs) + (length rs - length (filter success rs)) = length rs"
    by simp
  show ?thesis
    using tasks_of len sum
    by (simp add: res suc fai mset_completion_order tasks_def)
qed

subsection \<open>The store's keys\<close>

lemma max_stamp_None_iff:
  "max_stamp tbl symbol = None \<longleftrightarrow> symbol \<notin> company_symbol ` set tbl"
proof -
  have "filter (\<lambda>r. company_symbol r = symbol) tbl = [] \<longleftrightarrow> symbol \<notin> company_symbol ` set tbl"
    by (auto simp: filter_empty_conv)
  then show ?thesis
    by (auto simp: max_stamp_def split: list.splits)
qed

lemma has_key_company: "has_key tbl symbol t \<Longrightarrow> symbol \<in> company_symbol ` set tbl"
  by (auto simp: has_key_def)

subsection \<open>The daily example\<close>

lemma ibm_daily_body:
  "daily_body ''IBM'' None
     (''2024-01-02'',
       JObj [(''1. open'', JStr ''190.0''), (''2. high'', JStr ''192.0''), (''3. low'', JStr ''189.0''),
            (''4. close'', JStr ''191.5''), (''5. volume'', JStr ''1000000'')])
   = Inr (Some (''IBM'', ''2024-01-02'', Finite 190, Finite 192, Finite 189, Finite (383 / 2), 1000000))"
  by code_simp

lemma cast_date_2024_01_02: "cast_date ''2024-01-02'' = Some (2024, 1, 2)"
  by code_simp

text \<open>
  C7. The daily series for \<^verbatim>\<open>IBM\<close> has the single entry \<^verbatim>\<open>2024-01-02\<close> with open
  190.0, high 192.0, low 189.0, close 191.5 and volume 1000000. On a store that is
  reachable, knows the company and has no last date for it, processing adds exactly one
  row to the daily table: (IBM, 2024-01-02, 190.0, 192.0, 189.0, 191.5, 1000000).
\<close>

theorem ibm_daily_example:
  assumes "connected st" and "''IBM'' \<in> set (companies st)"
    and "check_last_date st ''IBM'' ''daily_stock_prices'' = None"
  shows "process_daily_stock_prices ''IBM''
           (JObj [(''2024-01-02'',
              JObj [(''1. open'', JStr ''190.0''), (''2. high'', JStr ''192.0''),
                    (''3. low'', JStr ''189.0''), (''4. close'', JStr ''191.5''),
                    (''5. volume'', JStr ''1000000'')])]) st
         = Inr (st\<lparr>daily_stock_prices := daily_stock_prices st @
                  [\<lparr>company_symbol = ''IBM'', stamp = (2024, 1, 2),
                    vals = (Finite 190, Finite 192, Finite 189, Finite (383 / 2), 1000000)\<rparr>]\<rparr>)"
proof -
  have none: "max_stamp (daily_stock_prices st) ''IBM'' = None"
    using assms(1,3) by (simp add: check_last_date_def select_max_def split: option.splits)
  then have nokey: "\<not> has_key (daily_stock_prices st) ''IBM'' (2024, 1, 2)"
    using has_key_company max_stamp_None_iff by metis
  show ?thesis
    using assms nokey
    by (simp add: process_daily_stock_prices_def and_then_def ibm_daily_body
        execute_batch_daily_def batch_insert_def cast_date_2024_01_02)
qed

theorem ibm_daily_example_witness:
  "process_daily_stock_prices ''IBM''
     (JObj [(''2024-01-02'',
        JObj [(''1. open'', JStr ''190.0''), (''2. high'', JStr ''192.0''),
              (''3. low'', JStr ''189.0''), (''4. close'', JStr ''191.5''),
              (''5. volume'', JStr ''1000000'')])])
     \<lparr>connected = True, companies = [''IBM''], daily_stock_prices = [],
      intraday_stock_prices = [], sma_indicators = []\<rparr>
   = Inr \<lparr>connected = True, companies = [''IBM''],
          daily_stock_prices =
            [\<lparr>company_symbol = ''IBM'', stamp = (2024, 1, 2),
              vals = (Finite 190, Finite 192, Finite 189, Finite (383 / 2), 1000000)\<rparr>],
          intraday_stock_prices = [], sma_indicators = []\<rparr>"
  using ibm_daily_example
    [of "\<lparr>connected = True, companies = [''IBM''], daily_stock_prices = [],
         intraday_stock_prices = [], sma_indicators = []\<rparr>"]
  by (simp add: check_last_date_def select_max_def max_stamp_def)

subsection \<open>The text that the DuckDB script stores for an SMA value\<close>

text \<open>
  C10. In \<^verbatim>\<open>main_parallel_duckdb.py\<close>, a parsed timestamp whose hour and minute are
  both zero is stored as the text of midnight of its date, whatever its seconds are:
  the key \<^verbatim>\<open>2024-01-02 00:00:30\<close> is stored as \<^verbatim>\<open>2024-01-02 00:00:00\<close>.
\<close>

theorem duckdb_sma_drops_seconds:
  "sma_timestamp_str DuckDB date_time_str (y, m, d, 0, 0, S)
     = strftime (y, m, d, 0, 0, 0) ''%Y-%m-%d %H:%M:%S''
   \<and> sma_body DuckDB symbol None (''2024-01-02 00:00:30'', JObj [(''SMA'', JStr ''150.25'')])
     = Inr (Some (symbol, ''2024-01-02 00:00:00'', Finite (601 / 4)))"
proof
  show "sma_timestamp_str DuckDB date_time_str (y, m, d, 0, 0, S)
     = strftime (y, m, d, 0, 0, 0) ''%Y-%m-%d %H:%M:%S''"
    by (simp add: sma_timestamp_str_def pad2_def digit_char_def)
  show "sma_body DuckDB symbol None (''2024-01-02 00:00:30'', JObj [(''SMA'', JStr ''150.25'')])
     = Inr (Some (symbol, ''2024-01-02 00:00:00'', Finite (601 / 4)))"
    by code_simp
qed

theorem duckdb_sma_drops_seconds_witness:
  "sma_timestamp_str DuckDB ''2024-01-02 00:00:30'' (2024, 1, 2, 0, 0, 30) = ''2024-01-02 00:00:00''"
  using duckdb_sma_drops_seconds [of "''2024-01-02 00:00:30''" 2024 1 2 30 "''IBM''"]
  by (simp add: pad2_def pad4_def digit_char_def)

subsection \<open>The last date in \<^verbatim>\<open>main.py\<close>\<close>


subsection \<open>The outcome of a task\<close>

lemma contains_obj: "contains (JObj kvs) k = Inr (map_of kvs k \<noteq> None)"
  by (simp add: map_of_eq_None_iff)

lemma fetch_returns_obj:
  "api endpoint symbol = Returns (JObj kvs) \<Longrightarrow> fetch_api_data v api endpoint symbol = Inr (JObj kvs)"
  by (cases v) (simp_all add: fetch_api_data_def)

lemma process_empty [simp]:
  "process_daily_stock_prices symbol (JObj []) st = Inr st"
  "process_intraday_stock_prices symbol (JObj []) st = Inr st"
  "process_sma_indicators v symbol (JObj []) st = Inr st"
  by (simp_all add: process_daily_stock_prices_def process_intraday_stock_prices_def
      process_sma_indicators_def)





text \<open>
  C5. When the fetched object has the key \<^verbatim>\<open>Error Message\<close>, the task returns a
  failure whose message is the value of that key, and the store is untouched; when it
  has no \<^verbatim>\<open>Error Message\<close> but a \<^verbatim>\<open>Note\<close>, the same with the value of \<^verbatim>\<open>Note\<close>. When
  it has neither of the two keys nor the series key of the endpoint, the task returns a
  success and the store is untouched. This holds for both parallel scripts.
\<close>

theorem error_message_note_and_missing_series:
  assumes "api endpoint symbol = Returns (JObj kvs)"
  shows
    "(map_of kvs ''Error Message'' = Some m \<longrightarrow>
        process_symbol_endpoint v api symbol endpoint st
        = (\<lparr>o_symbol = symbol, o_endpoint = endpoint, success = False, message = m\<rparr>, st))
   \<and> (map_of kvs ''Error Message'' = None \<and> map_of kvs ''Note'' = Some m \<longrightarrow>
        process_symbol_endpoint v api symbol endpoint st
        = (\<lparr>o_symbol = symbol, o_endpoint = endpoint, success = False, message = m\<rparr>, st))
   \<and> (map_of kvs ''Error Message'' = None \<and> map_of kvs ''Note'' = None
        \<and> (endpoint = ''TIME_SERIES_DAILY'' \<and> map_of kvs ''Time Series (Daily)'' = None
           \<or> endpoint = ''TIME_SERIES_INTRADAY'' \<and> map_of kvs ''Time Series (5min)'' = None
           \<or> endpoint = ''SMA'' \<and> map_of kvs ''Technical Analysis: SMA'' = None) \<longrightarrow>
        process_symbol_endpoint v api symbol endpoint st
        = (\<lparr>o_symbol = symbol, o_endpoint = endpoint, success = True,
             message = JStr ''Processed successfully''\<rparr>, st))"
proof -
  have fetch: "fetch_api_data v api endpoint symbol = Inr (JObj kvs)"
    using assms by (rule fetch_returns_obj)
  have a: "map_of kvs ''Error Message'' = Some m \<Longrightarrow>
        process_symbol_endpoint v api symbol endpoint st
        = (\<lparr>o_symbol = symbol, o_endpoint = endpoint, success = False, message = m\<rparr>, st)"
    by (simp add: process_symbol_endpoint_def try_block_def and_then_def fetch contains_obj
        del: contains.simps)
  have b: "map_of kvs ''Error Message'' = None \<Longrightarrow> map_of kvs ''Note'' = Some m \<Longrightarrow>
        process_symbol_endpoint v api symbol endpoint st
        = (\<lparr>o_symbol = symbol, o_endpoint = endpoint, success = False, message = m\<rparr>, st)"
    by (simp add: process_symbol_endpoint_def try_block_def and_then_def fetch contains_obj
        del: contains.simps)
  have c: "map_of kvs ''Error Message'' = None \<Longrightarrow> map_of kvs ''Note'' = None \<Longrightarrow>
        (endpoint = ''TIME_SERIES_DAILY'' \<and> map_of kvs ''Time Series (Daily)'' = None
           \<or> endpoint = ''TIME_SERIES_INTRADAY'' \<and> map_of kvs ''Time Series (5min)'' = None
           \<or> endpoint = ''SMA'' \<and> map_of kvs ''Technical Analysis: SMA'' = None) \<Longrightarrow>
        process_symbol_endpoint v api symbol endpoint st
        = (\<lparr>o_symbol = symbol, o_endpoint = endpoint, success = True,
             message = JStr ''Processed successfully''\<rparr>, st)"
    using fetch
    by (elim disjE conjE)
       (simp_all add: process_symbol_endpoint_def try_block_def and_then_def contains_obj
        del: contains.simps)
  show ?thesis using a b c by blast
qed

theorem error_message_note_and_missing_series_witness:
  "process_symbol_endpoint DuckDB example_api ''AAPL'' ''SMA'' example_store
     = (\<lparr>o_symbol = ''AAPL'', o_endpoint = ''SMA'', success = False,
          message = JStr ''Invalid API call''\<rparr>, example_store)
   \<and> process_symbol_endpoint Postgres example_api ''IBM'' ''TIME_SERIES_DAILY'' example_store
     = (\<lparr>o_symbol = ''IBM'', o_endpoint = ''TIME_SERIES_DAILY'', success = False,
          message = JStr ''rate limit reached''\<rparr>, example_store)
   \<and> process_symbol_endpoint Postgres example_api ''MSFT'' ''TIME_SERIES_INTRADAY'' example_store
     = (\<lparr>o_symbol = ''MSFT'', o_endpoint = ''TIME_SERIES_INTRADAY'', success = True,
          message = JStr ''Processed successfully''\<rparr>, example_store)"
proof -
  have a: "example_api ''SMA'' ''AAPL'' = Returns (JObj [(''Error Message'', JStr ''Invalid API call'')])"
    by (simp add: example_api_def)
  have b: "example_api ''TIME_SERIES_DAILY'' ''IBM'' = Returns (JObj [(''Note'', JStr ''rate limit reached'')])"
    by (simp add: example_api_def)
  have c: "example_api ''TIME_SERIES_INTRADAY'' ''MSFT'' = Returns (JObj [(''Information'', JStr ''no data'')])"
    by (simp add: example_api_def)
  show ?thesis
    using a b c
      error_message_note_and_missing_series
        [of example_api "''SMA''" "''AAPL''" "[(''Error Message'', JStr ''Invalid API call'')]"
            "JStr ''Invalid API call''" DuckDB example_store]
      error_message_note_and_missing_series
        [of example_api "''TIME_SERIES_DAILY''" "''IBM''" "[(''Note'', JStr ''rate limit reached'')]"
            "JStr ''rate limit reached''" Postgres example_store]
      error_message_note_and_missing_series
        [of example_api "''TIME_SERIES_INTRADAY''" "''MSFT''" "[(''Information'', JStr ''no data'')]"
            JNull Postgres example_store]
    by simp
qed




subsection \<open>A record that raises something else than KeyError or ValueError\<close>

text \<open>
  C3 at a payload that breaks it. The first record has \<^verbatim>\<open>null\<close> for \<^verbatim>\<open>1. open\<close>;
  \<^verbatim>\<open>float(None)\<close> raises TypeError, which \<^verbatim>\<open>except (KeyError, ValueError)\<close> does not
  catch. The exception leaves \<^verbatim>\<open>process_daily_stock_prices\<close>, the task fails, and the
  valid record of 2024-01-03 is not written.
\<close>

theorem null_field_aborts_the_dataset:
  "process_daily_stock_prices ''IBM''
     (JObj [(''2024-01-02'', null_record), (''2024-01-03'', valid_record)]) example_store
   = Inl (TypeError ''float() argument must be a string or a real number'')
   \<and> process_symbol_endpoint Postgres null_field_api ''IBM'' ''TIME_SERIES_DAILY'' example_store
     = (\<lparr>o_symbol = ''IBM'', o_endpoint = ''TIME_SERIES_DAILY'', success = False,
          message = JStr ''float() argument must be a string or a real number''\<rparr>, example_store)"
  by code_simp

subsection \<open>What the record loops collect\<close>

lemma strptime_error: "strptime s f = Inl e \<Longrightarrow> value_error e"
  by (auto simp: strptime_def split: list.splits prod.splits if_splits)



text \<open>
  A record whose body raises KeyError or ValueError (a missing field, text that is not
  a number, a key that is not a date) is skipped: the loop goes on as if the record
  were not there.
\<close>

lemma for_items_skips:
  "body x = Inl e \<Longrightarrow> key_or_value_error e \<Longrightarrow>
   for_items body (xs @ x # ys) values_list = for_items body (xs @ ys) values_list"
  by (induction xs arbitrary: values_list) (simp_all split: sum.splits option.splits)
















subsection \<open>The two formats of an SMA key\<close>

lemma digit_not_colon: "is_digit c \<Longrightarrow> c \<noteq> CHR '':''"
  by (auto simp: is_digit_def)

lemma between_digits_not_colon:
  "between lo hi c \<Longrightarrow> is_digit hi \<Longrightarrow> c \<noteq> CHR '':''"
  by (auto simp: between_def is_digit_def)

lemma two_rest:
  "(v, r) \<in> set (two p q s) \<Longrightarrow> \<exists>c d. s = c # d # r \<and> p c \<and> q d"
  by (auto simp: two_def split: list.splits if_splits)

lemma one_rest: "(v, r) \<in> set (one p s) \<Longrightarrow> \<exists>c. s = c # r \<and> p c"
  by (auto simp: one_def split: list.splits if_splits)

lemma lit_rest: "r \<in> set (lit c s) \<Longrightarrow> s = c # r"
  by (auto simp: lit_def split: list.splits if_splits)

lemma spaces1_rest: "r \<in> set (spaces1 s) \<Longrightarrow> set r \<subseteq> set s"
  by (auto simp: spaces1_def dest: in_set_dropD)

lemma re_Y_rest:
  assumes "(v, r) \<in> set (re_Y s)"
  shows "set r \<subseteq> set s" and "CHR '':'' \<in> set s \<Longrightarrow> CHR '':'' \<in> set r"
  using assms
  by (auto simp: re_Y_def split: list.splits if_splits dest: digit_not_colon)

lemma re_m_rest:
  assumes "(v, r) \<in> set (re_m s)"
  shows "set r \<subseteq> set s" and "CHR '':'' \<in> set s \<Longrightarrow> CHR '':'' \<in> set r"
  using assms
  by (auto simp: re_m_def between_def dest!: two_rest one_rest)

lemma re_d_rest:
  assumes "(v, r) \<in> set (re_d s)"
  shows "set r \<subseteq> set s" and "CHR '':'' \<in> set s \<Longrightarrow> CHR '':'' \<in> set r"
  using assms
  by (auto simp: re_d_def between_def is_digit_def split: list.splits if_splits
      dest!: two_rest one_rest)

lemma re_H_rest: "(v, r) \<in> set (re_H s) \<Longrightarrow> set r \<subseteq> set s"
  by (auto simp: re_H_def dest!: two_rest one_rest)

lemma re_M_rest: "(v, r) \<in> set (re_M s) \<Longrightarrow> set r \<subseteq> set s"
  by (auto simp: re_M_def dest!: two_rest one_rest)

lemma re_S_rest: "(v, r) \<in> set (re_S s) \<Longrightarrow> set r \<subseteq> set s"
  by (auto simp: re_S_def dest!: two_rest one_rest)

lemma matches_date:
  assumes "(t, r) \<in> set (matches ''%Y-%m-%d'' (1900, 1, 1, 0, 0, 0) s)"
  shows "\<exists>y m d. t = (y, m, d, 0, 0, 0)" and "CHR '':'' \<in> set s \<Longrightarrow> CHR '':'' \<in> set r"
proof -
  from assms obtain y r1 r2 m r3 r4 d
    where y: "(y, r1) \<in> set (re_Y s)" and l1: "r2 \<in> set (lit CHR ''-'' r1)"
      and m: "(m, r3) \<in> set (re_m r2)" and l2: "r4 \<in> set (lit CHR ''-'' r3)"
      and d: "(d, r) \<in> set (re_d r4)" and t: "t = (y, m, d, 0, 0, 0)"
    by (auto simp: is_space_def)
  show "\<exists>y m d. t = (y, m, d, 0, 0, 0)" using t by blast
  show "CHR '':'' \<in> set r" if "CHR '':'' \<in> set s"
  proof -
    have "CHR '':'' \<in> set r1" using that y by (rule re_Y_rest(2) [rotated])
    then have "CHR '':'' \<in> set r2" using lit_rest [OF l1] by auto
    then have "CHR '':'' \<in> set r3" using m by (rule re_m_rest(2) [rotated])
    then have "CHR '':'' \<in> set r4" using lit_rest [OF l2] by auto
    then show ?thesis using d by (rule re_d_rest(2) [rotated])
  qed
qed

lemma matches_timestamp:
  assumes "(t, r) \<in> set (matches ''%Y-%m-%d %H:%M:%S'' (1900, 1, 1, 0, 0, 0) s)"
  shows "CHR '':'' \<in> set s"
proof -
  from assms obtain y r1 r2 m r3 r4 d r5 r6 H r7 r8
    where y: "(y, r1) \<in> set (re_Y s)" and l1: "r2 \<in> set (lit CHR ''-'' r1)"
      and m: "(m, r3) \<in> set (re_m r2)" and l2: "r4 \<in> set (lit CHR ''-'' r3)"
      and d: "(d, r5) \<in> set (re_d r4)" and sp: "r6 \<in> set (spaces1 r5)"
      and H: "(H, r7) \<in> set (re_H r6)" and l3: "r8 \<in> set (lit CHR '':'' r7)"
    by (auto simp: is_space_def)
  have "CHR '':'' \<in> set r7" using lit_rest [OF l3] by simp
  then have "CHR '':'' \<in> set r6" using re_H_rest [OF H] by auto
  then have "CHR '':'' \<in> set r5" using spaces1_rest [OF sp] by auto
  then have "CHR '':'' \<in> set r4" using re_d_rest(1) [OF d] by auto
  then have "CHR '':'' \<in> set r3" using lit_rest [OF l2] by auto
  then have "CHR '':'' \<in> set r2" using re_m_rest(1) [OF m] by auto
  then have "CHR '':'' \<in> set r1" using lit_rest [OF l1] by auto
  then show ?thesis using re_Y_rest(1) [OF y] by auto
qed

lemma strptime_date_key:
  assumes "strptime s ''%Y-%m-%d'' = Inr t"
  shows "CHR '':'' \<notin> set s" and "t = midnight (date_of t)"
proof -
  from assms obtain rest where
    hd: "matches ''%Y-%m-%d'' (1900, 1, 1, 0, 0, 0) s = (t, []) # rest"
    by (auto simp: strptime_def split: list.splits prod.splits if_splits)
  then have mem: "(t, []) \<in> set (matches ''%Y-%m-%d'' (1900, 1, 1, 0, 0, 0) s)"
    by simp
  show "CHR '':'' \<notin> set s"
    using matches_date(2) [OF mem] by auto
  show "t = midnight (date_of t)"
    using matches_date(1) [OF mem] by auto
qed

lemma strptime_timestamp_key:
  assumes "strptime s ''%Y-%m-%d %H:%M:%S'' = Inr t"
  shows "CHR '':'' \<in> set s"
proof -
  from assms obtain r rest where
    "matches ''%Y-%m-%d %H:%M:%S'' (1900, 1, 1, 0, 0, 0) s = (t, r) # rest"
    by (auto simp: strptime_def split: list.splits prod.splits if_splits)
  then have "(t, r) \<in> set (matches ''%Y-%m-%d %H:%M:%S'' (1900, 1, 1, 0, 0, 0) s)"
    by simp
  then show ?thesis by (rule matches_timestamp)
qed
lemma strftime_midnight:
  "strftime (y, m, d, 0, 0, S) ''%Y-%m-%d 00:00:00''
   = strftime (y, m, d, 0, 0, 0) ''%Y-%m-%d %H:%M:%S''"
  by (simp add: pad2_def digit_char_def)

lemma date_key_both_orders:
  assumes "strptime key ''%Y-%m-%d'' = Inr t"
  shows "sma_strptime variant key = Inr t"
proof -
  have "CHR '':'' \<notin> set key" using assms by (rule strptime_date_key(1))
  then have "\<exists>e. strptime key ''%Y-%m-%d %H:%M:%S'' = Inl e"
    using strptime_timestamp_key [of key] by (cases "strptime key ''%Y-%m-%d %H:%M:%S''") auto
  then obtain e where e: "strptime key ''%Y-%m-%d %H:%M:%S'' = Inl e" by blast
  then have "value_error e" by (rule strptime_error)
  then show ?thesis
    using assms e by (cases variant) (simp_all add: sma_strptime_def try_formats_def)
qed

lemma timestamp_key_both_orders:
  assumes "strptime key ''%Y-%m-%d %H:%M:%S'' = Inr t"
  shows "sma_strptime variant key = Inr t"
proof -
  have "CHR '':'' \<in> set key" using assms by (rule strptime_timestamp_key)
  then have "\<exists>e. strptime key ''%Y-%m-%d'' = Inl e"
    using strptime_date_key(1) [of key] by (cases "strptime key ''%Y-%m-%d''") auto
  then obtain e where e: "strptime key ''%Y-%m-%d'' = Inl e" by blast
  then have "value_error e" by (rule strptime_error)
  then show ?thesis
    using assms e by (cases variant) (simp_all add: sma_strptime_def try_formats_def)
qed

lemma sma_strptime_either:
  "sma_strptime variant key = Inr t \<longleftrightarrow>
   strptime key ''%Y-%m-%d %H:%M:%S'' = Inr t \<or> strptime key ''%Y-%m-%d'' = Inr t"
proof
  assume "sma_strptime variant key = Inr t"
  then show "strptime key ''%Y-%m-%d %H:%M:%S'' = Inr t \<or> strptime key ''%Y-%m-%d'' = Inr t"
    by (cases variant)
       (auto simp: sma_strptime_def try_formats_def split: sum.splits if_splits)
next
  assume "strptime key ''%Y-%m-%d %H:%M:%S'' = Inr t \<or> strptime key ''%Y-%m-%d'' = Inr t"
  then show "sma_strptime variant key = Inr t"
    using date_key_both_orders timestamp_key_both_orders by blast
qed

text \<open>
  C6. Both parallel scripts accept an SMA key exactly when trying the full format
  \<^verbatim>\<open>%Y-%m-%d %H:%M:%S\<close> first and the date format \<^verbatim>\<open>%Y-%m-%d\<close> second accepts it,
  and with the same value (the DuckDB script tries the two in the other order; no key
  fits both). When the key is a date, the parsed value is midnight of that date; the
  DuckDB script stores the text \<^verbatim>\<open>YYYY-MM-DD 00:00:00\<close>, the formatting of that
  midnight, and the PostgreSQL script stores the key, which the store reads as that
  midnight.
\<close>

theorem sma_key_formats:
  "(sma_strptime variant key = Inr t
      \<longleftrightarrow> try_formats key ''%Y-%m-%d %H:%M:%S'' ''%Y-%m-%d'' = Inr t)
   \<and> (strptime key ''%Y-%m-%d'' = Inr t \<longrightarrow>
        sma_strptime variant key = Inr t
        \<and> t = midnight (date_of t)
        \<and> sma_timestamp_str DuckDB key t
            = strftime (midnight (date_of t)) ''%Y-%m-%d %H:%M:%S''
        \<and> cast_timestamp (sma_timestamp_str Postgres key t) = Some (midnight (date_of t)))"
proof (intro conjI impI)
  show "sma_strptime variant key = Inr t
      \<longleftrightarrow> try_formats key ''%Y-%m-%d %H:%M:%S'' ''%Y-%m-%d'' = Inr t"
    using sma_strptime_either [of variant key t] sma_strptime_either [of Postgres key t]
    by (simp add: sma_strptime_def)
next
  assume date: "strptime key ''%Y-%m-%d'' = Inr t"
  show parsed: "sma_strptime variant key = Inr t"
    using date by (rule date_key_both_orders)
  show mid: "t = midnight (date_of t)"
    using date by (rule strptime_date_key(2))
  obtain y m d where t: "t = (y, m, d, 0, 0, 0)"
    using mid by (cases t) auto
  show "sma_timestamp_str DuckDB key t = strftime (midnight (date_of t)) ''%Y-%m-%d %H:%M:%S''"
    unfolding t by (simp add: sma_timestamp_str_def pad2_def digit_char_def)
  have "sma_strptime Postgres key = Inr t"
    using date by (rule date_key_both_orders)
  then have "cast_timestamp key = Some t"
    by (auto simp: cast_timestamp_def sma_strptime_def try_formats_def
        split: sum.splits if_splits dest: strptime_error)
  then show "cast_timestamp (sma_timestamp_str Postgres key t) = Some (midnight (date_of t))"
    using mid by (simp add: sma_timestamp_str_def)
qed

theorem sma_key_formats_witness:
  "sma_strptime DuckDB ''2024-01-02'' = Inr (2024, 1, 2, 0, 0, 0)
   \<and> sma_timestamp_str DuckDB ''2024-01-02'' (2024, 1, 2, 0, 0, 0) = ''2024-01-02 00:00:00''
   \<and> cast_timestamp (sma_timestamp_str Postgres ''2024-01-02'' (2024, 1, 2, 0, 0, 0))
       = Some (2024, 1, 2, 0, 0, 0)
   \<and> process_sma_indicators DuckDB ''IBM'' (JObj sma_series) example_store
       = Inr (example_store\<lparr>sma_indicators :=
           [\<lparr>company_symbol = ''IBM'', stamp = (2024, 1, 2, 0, 0, 0), vals = Finite (601 / 4)\<rparr>]\<rparr>)
   \<and> process_sma_indicators Postgres ''IBM'' (JObj sma_series) example_store
       = Inr (example_store\<lparr>sma_indicators :=
           [\<lparr>company_symbol = ''IBM'', stamp = (2024, 1, 2, 0, 0, 0), vals = Finite (601 / 4)\<rparr>]\<rparr>)"
proof -
  have date: "strptime ''2024-01-02'' ''%Y-%m-%d'' = Inr (2024, 1, 2, 0, 0, 0)"
    by code_simp
  have fmt: "strftime (2024, 1, 2, 0, 0, 0) ''%Y-%m-%d %H:%M:%S'' = ''2024-01-02 00:00:00''"
    by code_simp
  have a: "sma_strptime DuckDB ''2024-01-02'' = Inr (2024, 1, 2, 0, 0, 0)
     \<and> sma_timestamp_str DuckDB ''2024-01-02'' (2024, 1, 2, 0, 0, 0) = ''2024-01-02 00:00:00''
     \<and> cast_timestamp (sma_timestamp_str Postgres ''2024-01-02'' (2024, 1, 2, 0, 0, 0))
         = Some (2024, 1, 2, 0, 0, 0)"
    using sma_key_formats [of DuckDB "''2024-01-02''" "(2024, 1, 2, 0, 0, 0)"] date fmt
    by simp
  have b: "process_sma_indicators DuckDB ''IBM'' (JObj sma_series) example_store
       = Inr (example_store\<lparr>sma_indicators :=
           [\<lparr>company_symbol = ''IBM'', stamp = (2024, 1, 2, 0, 0, 0), vals = Finite (601 / 4)\<rparr>]\<rparr>)"
    by code_simp
  have c: "process_sma_indicators Postgres ''IBM'' (JObj sma_series) example_store
       = Inr (example_store\<lparr>sma_indicators :=
           [\<lparr>company_symbol = ''IBM'', stamp = (2024, 1, 2, 0, 0, 0), vals = Finite (601 / 4)\<rparr>]\<rparr>)"
    by code_simp
  show ?thesis using a b c by simp
qed

end
